theory Spec2Isabelle
  imports Complex_Main
begin

section \<open>Quality metrics engine (src/services/metrics.ts)\<close>

text \<open>
  The five analyzers of \<^verbatim>\<open>metrics.ts\<close> and their aggregator, as HOL functions.

  \<^item> A JavaScript string is the list of its UTF-16 code units (\<open>length\<close> is
    \<^verbatim>\<open>.length\<close>); a code unit is a natural number.
  \<^item> A JavaScript number is a real number. The scores are doubles in the source: a
    score of the model is the exact value of the expression that the source evaluates in
    double arithmetic, so the two can differ in the last places, and a rounded field of
    \<open>calculateMetrics\<close> can differ by one where a score falls on a rounding boundary.
    What is proved below are ranges, comparisons and values that are exact in doubles
    too; nothing is proved of the exact value of a rounded mean. Every division of the
    source has a divisor that is at least 1 on the path that reaches it.
  \<^item> \<^verbatim>\<open>String.prototype.toLowerCase\<close> depends on the Unicode case tables of the
    runtime. Each function that calls it takes it as its first argument \<open>toLowerCase\<close>;
    \<open>toLowerCaseAscii\<close> below is its restriction to Basic Latin, used to run examples.
  \<^item> Regular expressions are terms of the datatype \<open>regex\<close>, run by a backtracking
    matcher that lists the possible ends of a match in the priority order of the
    ECMAScript semantics (greedy quantifiers, left alternative first).
\<close>

subsection \<open>Strings\<close>

type_synonym jsstring = "nat list"

definition js :: "string \<Rightarrow> jsstring" where
  "js s = map of_char s"

definition toLowerCaseAscii :: "jsstring \<Rightarrow> jsstring" where
  "toLowerCaseAscii s = map (\<lambda>c. if 65 \<le> c \<and> c \<le> 90 then c + 32 else c) s"

text \<open>ECMAScript \<^verbatim>\<open>LineTerminator\<close>: LF, CR, U+2028, U+2029.\<close>

definition isLineTerminator :: "nat \<Rightarrow> bool" where
  "isLineTerminator c = (c = 10 \<or> c = 13 \<or> c = 8232 \<or> c = 8233)"

text \<open>
  The class \<^verbatim>\<open>\s\<close>, which is also what \<^verbatim>\<open>trim\<close> strips: \<^verbatim>\<open>WhiteSpace\<close>
  (TAB, VT, FF, U+FEFF and the space separators U+0020, U+00A0, U+1680, U+2000..U+200A,
  U+202F, U+205F, U+3000) and \<^verbatim>\<open>LineTerminator\<close>.
\<close>

definition isSpace :: "nat \<Rightarrow> bool" where
  "isSpace c = (c = 9 \<or> c = 11 \<or> c = 12 \<or> c = 32 \<or> c = 160 \<or> c = 5760
     \<or> (8192 \<le> c \<and> c \<le> 8202) \<or> c = 8239 \<or> c = 8287 \<or> c = 12288 \<or> c = 65279
     \<or> isLineTerminator c)"

definition trim :: "jsstring \<Rightarrow> jsstring" where
  "trim s = rev (dropWhile isSpace (rev (dropWhile isSpace s)))"

definition startsWith :: "jsstring \<Rightarrow> jsstring \<Rightarrow> bool" where
  "startsWith s t = (take (length t) s = t)"

text \<open>\<^verbatim>\<open>s.includes(t)\<close>: \<open>t\<close> occurs in \<open>s\<close> as a contiguous substring.\<close>

fun includesStr :: "jsstring \<Rightarrow> jsstring \<Rightarrow> bool" where
  "includesStr [] t = (t = [])"
| "includesStr (c # cs) t = (startsWith (c # cs) t \<or> includesStr cs t)"

subsection \<open>Regular expressions\<close>

datatype regex =
    Eps
  | Cls "nat \<Rightarrow> bool"
  | Seq regex regex
  | Alt regex regex
  | Star regex
  | Bol
  | Eol
  | EndInput

text \<open>
  A position in the subject string: the code unit just before it (\<open>None\<close> at index 0)
  and the rest of the string from it.
\<close>

type_synonym pos = "nat option \<times> jsstring"

text \<open>
  \<open>ends r x\<close>: the positions where a match of \<open>r\<close> that starts at \<open>x\<close> can end, in
  the order in which the backtracking matcher tries them. \<open>Star\<close> is the greedy
  \<^verbatim>\<open>*\<close>; an iteration that consumes nothing is rejected, as in ECMAScript.
  \<open>Bol\<close> and \<open>Eol\<close> are \<^verbatim>\<open>^\<close> and \<^verbatim>\<open>$\<close> under the flag \<^verbatim>\<open>m\<close>; \<open>EndInput\<close> is
  \<^verbatim>\<open>$\<close> without it.
\<close>

fun ends :: "regex \<Rightarrow> pos \<Rightarrow> pos list" where
  "ends Eps x = [x]"
| "ends (Cls P) (p, []) = []"
| "ends (Cls P) (p, c # cs) = (if P c then [(Some c, cs)] else [])"
| "ends (Seq r1 r2) x = concat (map (ends r2) (ends r1 x))"
| "ends (Alt r1 r2) x = ends r1 x @ ends r2 x"
| "ends (Star r) (p, s) =
     concat (map (ends (Star r)) (filter (\<lambda>(q, t). length t < length s) (ends r (p, s))))
     @ [(p, s)]"
| "ends Bol (p, s) =
     (case p of None \<Rightarrow> [(p, s)] | Some c \<Rightarrow> if isLineTerminator c then [(p, s)] else [])"
| "ends Eol (p, s) =
     (case s of [] \<Rightarrow> [(p, s)] | c # cs \<Rightarrow> if isLineTerminator c then [(p, s)] else [])"
| "ends EndInput (p, s) = (if s = [] then [(p, s)] else [])"

text \<open>\<^verbatim>\<open>re.test(s)\<close>: some index of \<open>s\<close> starts a match.\<close>

fun testFrom :: "regex \<Rightarrow> pos \<Rightarrow> bool" where
  "testFrom r (p, []) = (ends r (p, []) \<noteq> [])"
| "testFrom r (p, c # cs) = (ends r (p, c # cs) \<noteq> [] \<or> testFrom r (Some c, cs))"

definition reTest :: "regex \<Rightarrow> jsstring \<Rightarrow> bool" where
  "reTest r s = testFrom r (None, s)"

text \<open>
  \<^verbatim>\<open>(s.match(re) || []).length\<close> for a regular expression with the flag \<^verbatim>\<open>g\<close>: the
  number of successive matches, each search starting where the previous match ended (one
  code unit further after an empty match).
\<close>

fun countFrom :: "regex \<Rightarrow> pos \<Rightarrow> nat" where
  "countFrom r (p, []) = (if ends r (p, []) \<noteq> [] then 1 else 0)"
| "countFrom r (p, c # cs) =
     (case ends r (p, c # cs) of
        [] \<Rightarrow> countFrom r (Some c, cs)
      | (q, t) # _ \<Rightarrow>
          if length t < length (c # cs) then 1 + countFrom r (q, t)
          else 1 + countFrom r (Some c, cs))"

definition matchCount :: "regex \<Rightarrow> jsstring \<Rightarrow> nat" where
  "matchCount r s = countFrom r (None, s)"

text \<open>
  \<^verbatim>\<open>s.split(re)\<close>. \<open>acc\<close> holds, reversed, the code units since the end of the last
  separator. A match that is empty and starts where the last separator ended is skipped.
\<close>

fun splitLoop :: "regex \<Rightarrow> jsstring \<Rightarrow> pos \<Rightarrow> jsstring list" where
  "splitLoop r acc (p, []) = [rev acc]"
| "splitLoop r acc (p, c # cs) =
     (case ends r (p, c # cs) of
        [] \<Rightarrow> splitLoop r (c # acc) (Some c, cs)
      | (q, t) # _ \<Rightarrow>
          if length t < length (c # cs) then rev acc # splitLoop r [] (q, t)
          else if acc = [] then splitLoop r [c] (Some c, cs)
          else rev acc # splitLoop r [c] (Some c, cs))"

definition splitRe :: "regex \<Rightarrow> jsstring \<Rightarrow> jsstring list" where
  "splitRe r s =
     (if s = [] then (if ends r (None, []) \<noteq> [] then [] else [[]])
      else splitLoop r [] (None, s))"

subsubsection \<open>Building blocks of the patterns\<close>

definition rChar :: "nat \<Rightarrow> regex" where
  "rChar c = Cls (\<lambda>x. x = c)"

definition rPlus :: "regex \<Rightarrow> regex" where
  "rPlus r = Seq r (Star r)"

definition rOpt :: "regex \<Rightarrow> regex" where
  "rOpt r = Alt r Eps"

text \<open>\<open>rTimes n r\<close> is \<^verbatim>\<open>r{n}\<close> and \<open>rUpto n r\<close> is \<^verbatim>\<open>r{0,n}\<close>.\<close>

fun rTimes :: "nat \<Rightarrow> regex \<Rightarrow> regex" where
  "rTimes 0 r = Eps"
| "rTimes (Suc n) r = Seq r (rTimes n r)"

fun rUpto :: "nat \<Rightarrow> regex \<Rightarrow> regex" where
  "rUpto 0 r = Eps"
| "rUpto (Suc n) r = Alt (Seq r (rUpto n r)) Eps"

fun rLit :: "jsstring \<Rightarrow> regex" where
  "rLit [] = Eps"
| "rLit (c # cs) = Seq (rChar c) (rLit cs)"

text \<open>
  Under the flag \<^verbatim>\<open>i\<close> (without \<^verbatim>\<open>u\<close>) two code units match when their
  canonical forms agree. The canonical form of a Basic Latin letter is its upper case,
  and no code unit from 128 on has a canonical form below 128, so against a pattern
  letter below 128 the comparison is the one of \<open>canonicalize\<close>.
\<close>

definition canonicalize :: "nat \<Rightarrow> nat" where
  "canonicalize c = (if 97 \<le> c \<and> c \<le> 122 then c - 32 else c)"

fun rLitI :: "jsstring \<Rightarrow> regex" where
  "rLitI [] = Eps"
| "rLitI (c # cs) = Seq (Cls (\<lambda>x. canonicalize x = canonicalize c)) (rLitI cs)"

fun rAlts :: "regex list \<Rightarrow> regex" where
  "rAlts [] = Cls (\<lambda>x. False)"
| "rAlts [r] = r"
| "rAlts (r # rs) = Alt r (rAlts rs)"

definition isDigit :: "nat \<Rightarrow> bool" where
  "isDigit c = (48 \<le> c \<and> c \<le> 57)"

text \<open>The class \<^verbatim>\<open>[.!?]\<close>.\<close>

definition isTerminator :: "nat \<Rightarrow> bool" where
  "isTerminator c = (c = 46 \<or> c = 33 \<or> c = 63)"

text \<open>The class \<^verbatim>\<open>[-\<bullet>*\d]\<close>; the bullet is U+2022.\<close>

definition isListMarker :: "nat \<Rightarrow> bool" where
  "isListMarker c = (c = 45 \<or> c = 8226 \<or> c = 42 \<or> isDigit c)"

text \<open>\<^verbatim>\<open>/\s+/\<close>\<close>

definition reSpaces :: regex where
  "reSpaces = rPlus (Cls isSpace)"

text \<open>\<^verbatim>\<open>/[.!?]+/\<close>\<close>

definition reTerminators :: regex where
  "reTerminators = rPlus (Cls isTerminator)"

text \<open>\<^verbatim>\<open>/\n\n+/\<close>\<close>

definition reParagraphBreak :: regex where
  "reParagraphBreak = Seq (rChar 10) (rPlus (rChar 10))"

text \<open>\<^verbatim>\<open>/\.\s+/\<close>\<close>

definition reDotSpaces :: regex where
  "reDotSpaces = Seq (rChar 46) (rPlus (Cls isSpace))"

text \<open>\<^verbatim>\<open>/\n[\s]*[-\<bullet>*\d]+\.?[\s]/\<close>\<close>

definition reListItem :: regex where
  "reListItem =
     Seq (rChar 10) (Seq (Star (Cls isSpace)) (Seq (rPlus (Cls isListMarker))
       (Seq (rOpt (rChar 46)) (Cls isSpace))))"

text \<open>\<^verbatim>\<open>/for example|such as|e\.g\.|i\.e\.|specifically|instance/i\<close>\<close>

definition reExamples :: regex where
  "reExamples = rAlts (map rLitI [js ''for example'', js ''such as'', js ''e.g.'', js ''i.e.'',
     js ''specifically'', js ''instance''])"

text \<open>\<^verbatim>\<open>/first|second|third|finally/i\<close>\<close>

definition reOrdinals :: regex where
  "reOrdinals = rAlts (map rLitI [js ''first'', js ''second'', js ''third'', js ''finally''])"

text \<open>\<^verbatim>\<open>/list|enumerate|steps|how to/i\<close>\<close>

definition reListPrompt :: regex where
  "reListPrompt = rAlts (map rLitI [js ''list'', js ''enumerate'', js ''steps'', js ''how to''])"

text \<open>\<^verbatim>\<open>/explain|describe|discuss|analyze/i\<close>\<close>

definition reExplainPrompt :: regex where
  "reExplainPrompt =
     rAlts (map rLitI [js ''explain'', js ''describe'', js ''discuss'', js ''analyze''])"

text \<open>\<^verbatim>\<open>/yes|no|true|false|choose|select/i\<close>\<close>

definition reChoicePrompt :: regex where
  "reChoicePrompt = rAlts (map rLitI [js ''yes'', js ''no'', js ''true'', js ''false'',
     js ''choose'', js ''select''])"

text \<open>\<^verbatim>\<open>/```[\s\S]*```|`[^`]+`/\<close>\<close>

definition reCode :: regex where
  "reCode =
     Alt (Seq (rLit [96, 96, 96]) (Seq (Star (Cls (\<lambda>x. True))) (rLit [96, 96, 96])))
         (Seq (rChar 96) (Seq (rPlus (Cls (\<lambda>x. x \<noteq> 96))) (rChar 96)))"

text \<open>\<^verbatim>\<open>/^#{1,6}\s+.+$/m\<close>\<close>

definition reMarkdownHeader :: regex where
  "reMarkdownHeader =
     Seq Bol (Seq (Seq (rChar 35) (rUpto 5 (rChar 35))) (Seq (rPlus (Cls isSpace))
       (Seq (rPlus (Cls (\<lambda>x. \<not> isLineTerminator x))) Eol)))"

text \<open>\<^verbatim>\<open>/^[A-Z][^.!?]+:$/m\<close>\<close>

definition reSectionLabel :: regex where
  "reSectionLabel =
     Seq Bol (Seq (Cls (\<lambda>x. 65 \<le> x \<and> x \<le> 90)) (Seq (rPlus (Cls (\<lambda>x. \<not> isTerminator x)))
       (Seq (rChar 58) Eol)))"

text \<open>\<^verbatim>\<open>/[.!?]$/\<close>\<close>

definition reEndsTerminated :: regex where
  "reEndsTerminated = Seq (Cls isTerminator) EndInput"

text \<open>\<^verbatim>\<open>/\n{4,}/g\<close>\<close>

definition reExcessiveBreaks :: regex where
  "reExcessiveBreaks = Seq (rTimes 4 (rChar 10)) (Star (rChar 10))"

subsection \<open>Numbers (lib/utils)\<close>

text \<open>
  Modelled from the spec: \<^verbatim>\<open>clamp\<close> is imported from \<^verbatim>\<open>@/lib/utils\<close>, which is not
  among the sources. The spec has every score "clamped to [0, 100]", and the source calls
  it as \<^verbatim>\<open>clamp(value, 0, 100)\<close>: the value, then the lower and the upper bound.
\<close>

definition clamp :: "real \<Rightarrow> real \<Rightarrow> real \<Rightarrow> real" where
  "clamp v lo hi = min (max v lo) hi"

text \<open>
  Modelled from the spec: \<^verbatim>\<open>average\<close> is imported from \<^verbatim>\<open>@/lib/utils\<close>, which is
  not among the sources. The spec has \<open>overall\<close> the "arithmetic mean of the five" scores;
  the source calls it on a list of five numbers only.
\<close>

definition average :: "real list \<Rightarrow> real" where
  "average xs = sum_list xs / real (length xs)"

text \<open>\<^verbatim>\<open>Math.round\<close>: the nearest integer, a tie going up.\<close>

definition mathRound :: "real \<Rightarrow> int" where
  "mathRound x = \<lfloor>x + 1 / 2\<rfloor>"

subsection \<open>Helper functions\<close>

definition splitIntoSentences :: "jsstring \<Rightarrow> jsstring list" where
  "splitIntoSentences text =
     filter (\<lambda>s. length s > 0) (map trim (splitRe reTerminators text))"

text \<open>The loop of \<^verbatim>\<open>countSyllables\<close> over the letters of the word.\<close>

fun syllableLoop :: "jsstring \<Rightarrow> int \<Rightarrow> bool \<Rightarrow> int" where
  "syllableLoop [] count previousWasVowel = count"
| "syllableLoop (c # cs) count previousWasVowel =
     (let isVowel = (c \<in> set (js ''aeiouy''))
      in syllableLoop cs (if isVowel \<and> \<not> previousWasVowel then count + 1 else count) isVowel)"

definition countSyllables :: "(jsstring \<Rightarrow> jsstring) \<Rightarrow> jsstring \<Rightarrow> int" where
  "countSyllables toLowerCase word0 =
     (let word = filter (\<lambda>c. 97 \<le> c \<and> c \<le> 122) (toLowerCase word0)
      in if length word = 0 then 0
         else
           let count = syllableLoop word 0 False;
               count = (if last word = 101 then count - 1 else count)
           in max 1 count)"

definition countTotalSyllables :: "(jsstring \<Rightarrow> jsstring) \<Rightarrow> jsstring \<Rightarrow> int" where
  "countTotalSyllables toLowerCase text =
     (let words = splitRe reSpaces (toLowerCase text)
      in foldl (\<lambda>total word. total + countSyllables toLowerCase word) 0 words)"

definition commonWords :: "jsstring list" where
  "commonWords = map js
     [''the'', ''be'', ''to'', ''of'', ''and'', ''a'', ''in'', ''that'', ''have'', ''i'',
      ''it'', ''for'', ''not'', ''on'', ''with'', ''he'', ''as'', ''you'', ''do'', ''at'',
      ''this'', ''but'', ''his'', ''by'', ''from'', ''they'', ''we'', ''say'', ''her'', ''she'',
      ''or'', ''an'', ''will'', ''my'', ''one'', ''all'', ''would'', ''there'', ''their'',
      ''what'']"

definition isCommonWord :: "(jsstring \<Rightarrow> jsstring) \<Rightarrow> jsstring \<Rightarrow> bool" where
  "isCommonWord toLowerCase word = (toLowerCase word \<in> set commonWords)"

subsection \<open>Coherence\<close>

definition transitionWords :: "jsstring list" where
  "transitionWords = map js
     [''however'', ''therefore'', ''furthermore'', ''moreover'', ''additionally'',
      ''consequently'', ''nevertheless'', ''meanwhile'', ''similarly'', ''likewise'',
      ''thus'', ''hence'', ''accordingly'', ''besides'', ''also'', ''then'', ''next'',
      ''finally'', ''first'', ''second'', ''third'', ''lastly'', ''indeed'', ''certainly'']"

text \<open>
  The body of the loop for one pair of consecutive sentences. A \<^verbatim>\<open>Set\<close> of words is
  the list of its distinct elements; only its size and membership are used.
\<close>

definition pairScore :: "(jsstring \<Rightarrow> jsstring) \<Rightarrow> jsstring \<Rightarrow> jsstring \<Rightarrow> real" where
  "pairScore toLowerCase sentence nextSentence =
     (let current = toLowerCase sentence;
          next = toLowerCase nextSentence;
          currentWords = remdups (filter (\<lambda>w. length w > 3) (splitRe reSpaces current));
          nextWords = remdups (filter (\<lambda>w. length w > 3) (splitRe reSpaces next));
          intersection = filter (\<lambda>w. w \<in> set nextWords) currentWords;
          overlapRatio = real (length intersection) / real (max (length currentWords) 1);
          hasTransition = list_ex (\<lambda>word. includesStr next word) transitionWords;
          pairScore = overlapRatio * 70;
          pairScore = (if hasTransition then pairScore + 30 else pairScore)
      in clamp pairScore 0 100)"

text \<open>The loop \<^verbatim>\<open>for (i = 0; i < sentences.length - 1; i++)\<close>, adding to \<open>totalScore\<close>.\<close>

fun pairLoop :: "(jsstring \<Rightarrow> jsstring) \<Rightarrow> real \<Rightarrow> jsstring list \<Rightarrow> real" where
  "pairLoop toLowerCase totalScore (s # t # rest) =
     pairLoop toLowerCase (totalScore + pairScore toLowerCase s t) (t # rest)"
| "pairLoop toLowerCase totalScore rest = totalScore"

definition calculateCoherence :: "(jsstring \<Rightarrow> jsstring) \<Rightarrow> jsstring \<Rightarrow> real" where
  "calculateCoherence toLowerCase text =
     (let sentences = splitIntoSentences text
      in if length sentences = 0 then 0
         else if length sentences = 1 then 85
         else
           let totalScore = pairLoop toLowerCase 0 sentences;
               coherenceScore = totalScore / real (length sentences - 1);
               paragraphs = splitRe reParagraphBreak text;
               structureBonus = min (real (length paragraphs) * 2) 10
           in clamp (coherenceScore + structureBonus) 0 100)"

subsection \<open>Completeness\<close>

text \<open>The key terms of the prompt (the local \<open>promptWords\<close>).\<close>

definition promptTerms :: "(jsstring \<Rightarrow> jsstring) \<Rightarrow> jsstring \<Rightarrow> jsstring list" where
  "promptTerms toLowerCase prompt =
     filter (\<lambda>w. \<not> isCommonWord toLowerCase w)
       (filter (\<lambda>w. length w > 3) (splitRe reSpaces (toLowerCase prompt)))"

definition calculateCompleteness ::
  "(jsstring \<Rightarrow> jsstring) \<Rightarrow> jsstring \<Rightarrow> jsstring \<Rightarrow> real" where
  "calculateCompleteness toLowerCase prompt response =
     (let responseLower = toLowerCase response;
          promptWords = promptTerms toLowerCase prompt
      in if length promptWords = 0 then 75
         else
           let addressedTerms = length (filter (\<lambda>word. includesStr responseLower word) promptWords);
               termCoverage = (real addressedTerms / real (length promptWords)) * 60;
               patternScore = 0;
               patternScore =
                 (if reTest reExamples response then patternScore + 15 else patternScore);
               patternScore =
                 (if reTest reListItem response \<or> reTest reOrdinals response
                  then patternScore + 15 else patternScore);
               patternScore =
                 (if length response > 200 \<and> length (splitRe reDotSpaces response) \<ge> 3
                  then patternScore + 10 else patternScore)
           in clamp (termCoverage + patternScore) 0 100)"

subsection \<open>Readability\<close>

text \<open>
  The locals \<open>words\<close>, \<open>fleschScore\<close>, \<open>longSentences / sentences.length\<close> and
  \<open>paragraphBonus\<close> of \<^verbatim>\<open>calculateReadability\<close>, as functions of the text.
\<close>

definition textWords :: "jsstring \<Rightarrow> jsstring list" where
  "textWords text = filter (\<lambda>w. length w > 0) (splitRe reSpaces text)"

definition fleschScore :: "(jsstring \<Rightarrow> jsstring) \<Rightarrow> jsstring \<Rightarrow> real" where
  "fleschScore toLowerCase text =
     (let sentences = splitIntoSentences text;
          words = textWords text;
          syllables = countTotalSyllables toLowerCase text;
          avgWordsPerSentence = real (length words) / real (length sentences);
          avgSyllablesPerWord = real_of_int syllables / real (length words)
      in 206.835 - 1.015 * avgWordsPerSentence - 84.6 * avgSyllablesPerWord)"

definition longSentenceFraction :: "jsstring \<Rightarrow> real" where
  "longSentenceFraction text =
     (let sentences = splitIntoSentences text;
          longSentences = length (filter (\<lambda>s. length (splitRe reSpaces s) > 40) sentences)
      in real longSentences / real (length sentences))"

definition paragraphBonus :: "jsstring \<Rightarrow> real" where
  "paragraphBonus text =
     (let paragraphs = splitRe reParagraphBreak text
      in if length paragraphs > 1 then 5 else 0)"

definition calculateReadability :: "(jsstring \<Rightarrow> jsstring) \<Rightarrow> jsstring \<Rightarrow> real" where
  "calculateReadability toLowerCase text =
     (let sentences = splitIntoSentences text;
          words = textWords text
      in if length words = 0 \<or> length sentences = 0 then 0
         else
           let readabilityScore = clamp (fleschScore toLowerCase text) 0 100;
               longSentencePenalty = longSentenceFraction text * 20
           in clamp (readabilityScore - longSentencePenalty + paragraphBonus text) 0 100)"

subsection \<open>Length appropriateness\<close>

text \<open>The number of words of a string as \<^verbatim>\<open>s.split(/\s+/).length\<close> counts them.\<close>

abbreviation wordCount :: "jsstring \<Rightarrow> nat" where
  "wordCount s \<equiv> length (splitRe reSpaces s)"

text \<open>
  The expected band \<open>(expectedMin, expectedMax)\<close>: the range chosen from the word count
  of the prompt, then the three pattern checks in the order of the source, each
  overwriting the range when its pattern matches.
\<close>

definition expectedRange :: "jsstring \<Rightarrow> nat \<times> nat" where
  "expectedRange prompt =
     (let promptWords = length (splitRe reSpaces prompt);
          range = (if promptWords < 10 then (30, 200)
                   else if promptWords < 30 then (50, 400)
                   else (100, 800));
          range = (if reTest reListPrompt prompt then (50, 600) else range);
          range = (if reTest reExplainPrompt prompt then (80, 500) else range);
          range = (if reTest reChoicePrompt prompt then (20, 150) else range)
      in range)"

definition calculateLengthAppropriateness :: "jsstring \<Rightarrow> jsstring \<Rightarrow> real" where
  "calculateLengthAppropriateness prompt response =
     (let responseWords = length (splitRe reSpaces response);
          (expectedMin, expectedMax) = expectedRange prompt;
          score =
            (if responseWords < expectedMin then
               let shortfall = real expectedMin - real responseWords
               in max 0 (100 - (shortfall / real expectedMin) * 80)
             else if responseWords > expectedMax then
               let excess = real responseWords - real expectedMax
               in max 0 (100 - (excess / real expectedMax) * 50)
             else 100)
      in clamp score 0 100)"

subsection \<open>Structural quality\<close>

text \<open>
  \<open>properlyEnded\<close>: the number of sentences, as \<^verbatim>\<open>splitIntoSentences\<close> returns them,
  that match \<^verbatim>\<open>/[.!?]$/\<close> after \<^verbatim>\<open>trim\<close>.
\<close>

definition properlyEnded :: "jsstring \<Rightarrow> nat" where
  "properlyEnded text =
     length (filter (\<lambda>s. reTest reEndsTerminated (trim s)) (splitIntoSentences text))"

definition openParens :: "jsstring \<Rightarrow> nat" where
  "openParens text = matchCount (rChar 40) text"

definition closeParens :: "jsstring \<Rightarrow> nat" where
  "closeParens text = matchCount (rChar 41) text"

text \<open>
  The value of \<open>score\<close> when the source reaches the check of the parentheses: the base,
  the paragraph, list, code, header and punctuation terms and the penalty for line breaks.
\<close>

definition scoreBeforeParens :: "jsstring \<Rightarrow> real" where
  "scoreBeforeParens text =
     (let score = 60;
          paragraphs = splitRe reParagraphBreak text;
          score = (if length paragraphs > 1
                   then score + min (real (length paragraphs) * 3) 15 else score);
          listMatches = matchCount reListItem text;
          score = (if listMatches \<ge> 2 then score + 10 else score);
          score = (if reTest reCode text then score + 5 else score);
          score = (if reTest reMarkdownHeader text \<or> reTest reSectionLabel text
                   then score + 5 else score);
          sentences = splitIntoSentences text;
          score = (if length sentences > 0
                   then score + (real (properlyEnded text) / real (length sentences)) * 10
                   else score);
          excessiveBreaks = matchCount reExcessiveBreaks text
      in score - real excessiveBreaks * 5)"

definition calculateStructuralQuality :: "jsstring \<Rightarrow> real" where
  "calculateStructuralQuality text =
     (let score = scoreBeforeParens text;
          score = (if openParens text = closeParens text then score + 5 else score)
      in clamp score 0 100)"

subsection \<open>All metrics\<close>

record QualityMetrics =
  coherence :: int
  completeness :: int
  readability :: int
  lengthAppropriatenss :: int
  structuralQuality :: int
  overall :: int

definition calculateMetrics ::
  "(jsstring \<Rightarrow> jsstring) \<Rightarrow> jsstring \<Rightarrow> jsstring \<Rightarrow> QualityMetrics" where
  "calculateMetrics toLowerCase prompt response =
     (let coherence = calculateCoherence toLowerCase response;
          completeness = calculateCompleteness toLowerCase prompt response;
          readability = calculateReadability toLowerCase response;
          lengthAppropriatenss = calculateLengthAppropriateness prompt response;
          structuralQuality = calculateStructuralQuality response;
          overall = average [coherence, completeness, readability, lengthAppropriatenss,
                             structuralQuality]
      in \<lparr> coherence = mathRound coherence,
           completeness = mathRound completeness,
           readability = mathRound readability,
           lengthAppropriatenss = mathRound lengthAppropriatenss,
           structuralQuality = mathRound structuralQuality,
           overall = mathRound overall \<rparr>)"

subsection \<open>Example texts\<close>

text \<open>
  A one-word text, a text of one sentence of 41 words, and a text of 16 runs of four line
  breaks, each followed by a letter.
\<close>

abbreviation shortNumbers :: jsstring where
  "shortNumbers \<equiv> js ''1.''"

abbreviation longNumbers :: jsstring where
  "longNumbers \<equiv> js ''1 1 1 1 1 1 1 1 1 1 1 1 1 1 1 1 1 1 1 1 1 1 1 1 1 1 1 1 1 1 1 1 1 1 1 1 1 1 1 1 1.''"

text \<open>Nineteen words \<^verbatim>\<open>a\<close>, a space between them, and a line feed at the end.\<close>

abbreviation nineteenWordsAndLineFeed :: jsstring where
  "nineteenWordsAndLineFeed \<equiv> concat (replicate 18 [97, 32]) @ [97, 10]"

abbreviation manyBreaks :: jsstring where
  "manyBreaks \<equiv> concat (replicate 16 [10, 10, 10, 10, 97])"

section \<open>Running the patterns\<close>

lemma rTimes_numeral [simp]: "rTimes (numeral k) r = Seq r (rTimes (pred_numeral k) r)"
  by (simp add: numeral_eq_Suc)

lemma rUpto_numeral [simp]: "rUpto (numeral k) r = Alt (Seq r (rUpto (pred_numeral k) r)) Eps"
  by (simp add: numeral_eq_Suc)

lemma replicate_numeral: "replicate (numeral k) x = x # replicate (pred_numeral k) x"
  by (simp add: numeral_eq_Suc)

lemmas pattern_defs =
  rChar_def rPlus_def rOpt_def reSpaces_def reTerminators_def reParagraphBreak_def
  reDotSpaces_def reListItem_def reExamples_def reOrdinals_def reListPrompt_def
  reExplainPrompt_def reChoicePrompt_def reCode_def reMarkdownHeader_def reSectionLabel_def
  reEndsTerminated_def reExcessiveBreaks_def canonicalize_def isDigit_def isTerminator_def
  isListMarker_def isSpace_def isLineTerminator_def js_def

lemmas run_defs =
  splitRe_def reTest_def matchCount_def trim_def splitIntoSentences_def

section \<open>Ranges of the scores\<close>

lemma clamp_range: "0 \<le> clamp v 0 100 \<and> clamp v 0 100 \<le> 100"
  by (simp add: clamp_def)

lemma mathRound_range:
  assumes "0 \<le> x" and "x \<le> 100"
  shows "0 \<le> mathRound x \<and> mathRound x \<le> 100"
proof -
  have "0 \<le> \<lfloor>x + 1 / 2\<rfloor>" using assms(1) by simp
  moreover have "x + 1 / 2 < 101" using assms(2) by simp
  then have "\<lfloor>x + 1 / 2\<rfloor> < 101" by (simp add: floor_less_iff)
  ultimately show ?thesis by (simp add: mathRound_def)
qed

lemma calculateCoherence_range:
  "0 \<le> calculateCoherence lc text \<and> calculateCoherence lc text \<le> 100"
  by (simp add: calculateCoherence_def Let_def clamp_range)

lemma calculateCompleteness_range:
  "0 \<le> calculateCompleteness lc prompt response
   \<and> calculateCompleteness lc prompt response \<le> 100"
  by (simp add: calculateCompleteness_def Let_def clamp_range)

lemma calculateReadability_range:
  "0 \<le> calculateReadability lc text \<and> calculateReadability lc text \<le> 100"
  by (simp add: calculateReadability_def Let_def clamp_range)

lemma calculateLengthAppropriateness_range:
  "0 \<le> calculateLengthAppropriateness prompt response
   \<and> calculateLengthAppropriateness prompt response \<le> 100"
  by (simp add: calculateLengthAppropriateness_def Let_def clamp_range split: prod.split)

lemma calculateStructuralQuality_range:
  "0 \<le> calculateStructuralQuality text \<and> calculateStructuralQuality text \<le> 100"
  by (simp add: calculateStructuralQuality_def Let_def clamp_range)

lemma average_five: "average [a, b, c, d, e] = (a + b + c + d + e) / 5"
  by (simp add: average_def)

text \<open>
  Claim C1. For every prompt and response, each of the five metric fields returned by
  \<open>calculateMetrics\<close> and the derived field \<open>overall\<close> lies between 0 and 100.
\<close>

theorem calculateMetrics_fields_in_range:
  "let m = calculateMetrics toLowerCase prompt response
   in 0 \<le> coherence m \<and> coherence m \<le> 100
    \<and> 0 \<le> completeness m \<and> completeness m \<le> 100
    \<and> 0 \<le> readability m \<and> readability m \<le> 100
    \<and> 0 \<le> lengthAppropriatenss m \<and> lengthAppropriatenss m \<le> 100
    \<and> 0 \<le> structuralQuality m \<and> structuralQuality m \<le> 100
    \<and> 0 \<le> overall m \<and> overall m \<le> 100"
proof -
  let ?c1 = "calculateCoherence toLowerCase response"
  let ?c2 = "calculateCompleteness toLowerCase prompt response"
  let ?c3 = "calculateReadability toLowerCase response"
  let ?c4 = "calculateLengthAppropriateness prompt response"
  let ?c5 = "calculateStructuralQuality response"
  note r = calculateCoherence_range [of toLowerCase response]
    calculateCompleteness_range [of toLowerCase prompt response]
    calculateReadability_range [of toLowerCase response]
    calculateLengthAppropriateness_range [of prompt response]
    calculateStructuralQuality_range [of response]
  have avg: "0 \<le> average [?c1, ?c2, ?c3, ?c4, ?c5] \<and> average [?c1, ?c2, ?c3, ?c4, ?c5] \<le> 100"
    using r by (simp add: average_five)
  show ?thesis
    unfolding calculateMetrics_def Let_def
    using r avg by (simp add: mathRound_range)
qed

theorem calculateMetrics_fields_in_range_witness:
  "let m = calculateMetrics toLowerCaseAscii (js ''Is it'') (js ''Yes.'')
   in 0 \<le> coherence m \<and> coherence m \<le> 100
    \<and> 0 \<le> completeness m \<and> completeness m \<le> 100
    \<and> 0 \<le> readability m \<and> readability m \<le> 100
    \<and> 0 \<le> lengthAppropriatenss m \<and> lengthAppropriatenss m \<le> 100
    \<and> 0 \<le> structuralQuality m \<and> structuralQuality m \<le> 100
    \<and> 0 \<le> overall m \<and> overall m \<le> 100"
  by (rule calculateMetrics_fields_in_range)

section \<open>Coherence\<close>

lemma splitIntoSentences_empty: "splitIntoSentences [] = []"
  by (simp add: run_defs pattern_defs)

lemma splitIntoSentences_hello_world:
  "splitIntoSentences (js ''Hello world'') = [js ''Hello world'']"
  by (simp add: run_defs pattern_defs)

text \<open>
  Claim C5. \<open>calculateCoherence\<close> returns 0 for a text that splits into no sentence, and
  85 for a text that splits into exactly one sentence.
\<close>

theorem calculateCoherence_zero_or_one_sentence:
  "(length (splitIntoSentences text) = 0 \<longrightarrow> calculateCoherence toLowerCase text = 0)
   \<and> (length (splitIntoSentences text) = 1 \<longrightarrow> calculateCoherence toLowerCase text = 85)"
  by (simp add: calculateCoherence_def Let_def)

theorem calculateCoherence_zero_or_one_sentence_witness:
  "length (splitIntoSentences []) = 0 \<and> calculateCoherence toLowerCaseAscii [] = 0
   \<and> length (splitIntoSentences (js ''Hello world'')) = 1
   \<and> calculateCoherence toLowerCaseAscii (js ''Hello world'') = 85"
  using calculateCoherence_zero_or_one_sentence [of "[]" toLowerCaseAscii]
    calculateCoherence_zero_or_one_sentence [of "js ''Hello world''" toLowerCaseAscii]
  by (simp add: splitIntoSentences_empty splitIntoSentences_hello_world)

section \<open>Completeness\<close>

text \<open>
  Claim C6. When no whitespace token of the lower-cased prompt is both longer than three
  code units and outside the stop words, \<open>calculateCompleteness\<close> returns 75 for every
  response.
\<close>

theorem calculateCompleteness_no_key_terms:
  assumes "\<forall>w \<in> set (splitRe reSpaces (toLowerCase prompt)).
             \<not> (length w > 3 \<and> \<not> isCommonWord toLowerCase w)"
  shows "calculateCompleteness toLowerCase prompt response = 75"
proof -
  have "promptTerms toLowerCase prompt = []"
    unfolding promptTerms_def using assms by (auto simp: filter_empty_conv)
  then show ?thesis by (simp add: calculateCompleteness_def Let_def)
qed

lemma tokens_of_stop_word_prompt:
  "splitRe reSpaces (toLowerCaseAscii (js ''Is it what THEY have'')) =
     [js ''is'', js ''it'', js ''what'', js ''they'', js ''have'']"
  by (simp add: run_defs pattern_defs toLowerCaseAscii_def)

theorem calculateCompleteness_no_key_terms_witness:
  "calculateCompleteness toLowerCaseAscii (js ''Is it what THEY have'') (js ''Yes.'') = 75"
proof -
  have "\<forall>w \<in> set (splitRe reSpaces (toLowerCaseAscii (js ''Is it what THEY have''))).
          \<not> (length w > 3 \<and> \<not> isCommonWord toLowerCaseAscii w)"
    unfolding tokens_of_stop_word_prompt
    by (simp add: isCommonWord_def commonWords_def toLowerCaseAscii_def js_def)
  then show ?thesis by (rule calculateCompleteness_no_key_terms)
qed

section \<open>Length appropriateness\<close>

lemma expectedRange_cases:
  "expectedRange prompt \<in> {(30, 200), (50, 400), (100, 800), (50, 600), (80, 500), (20, 150)}"
  by (simp add: expectedRange_def Let_def)

text \<open>The pattern checked last wins; the word count of the prompt decides when none matches.\<close>

lemma expectedRange_priority:
  "expectedRange prompt =
     (if reTest reChoicePrompt prompt then (20, 150)
      else if reTest reExplainPrompt prompt then (80, 500)
      else if reTest reListPrompt prompt then (50, 600)
      else if wordCount prompt < 10 then (30, 200)
      else if wordCount prompt < 30 then (50, 400)
      else (100, 800))"
  by (simp add: expectedRange_def Let_def)

lemma expectedRange_bounds:
  assumes "expectedRange prompt = (mn, mx)"
  shows "20 \<le> mn \<and> mn \<le> 100 \<and> mn \<le> mx"
  using expectedRange_cases [of prompt] assms by auto

lemma length_score_eq:
  assumes "expectedRange prompt = (mn, mx)"
  shows "calculateLengthAppropriateness prompt response =
     clamp (if wordCount response < mn
            then max 0 (100 - (real mn - real (wordCount response)) / real mn * 80)
            else if wordCount response > mx
            then max 0 (100 - (real (wordCount response) - real mx) / real mx * 50)
            else 100) 0 100"
  using assms by (simp add: calculateLengthAppropriateness_def Let_def)

lemma length_score_short:
  assumes eq: "expectedRange prompt = (mn, mx)" and short: "wordCount response < mn"
  shows "calculateLengthAppropriateness prompt response =
           100 - (real mn - real (wordCount response)) / real mn * 80"
proof -
  define x where "x = (real mn - real (wordCount response)) / real mn"
  have mn: "0 < real mn" using short by simp
  have "0 \<le> x" unfolding x_def using short by simp
  moreover have "x \<le> 1" unfolding x_def using mn by (simp add: divide_le_eq_1)
  ultimately have "clamp (max 0 (100 - x * 80)) 0 100 = 100 - x * 80"
    by (auto simp: clamp_def max_def min_def)
  then show ?thesis
    unfolding x_def length_score_eq [OF eq] using short by (simp only: if_True)
qed

lemma length_score_long:
  assumes eq: "expectedRange prompt = (mn, mx)" and long: "mx < wordCount response"
  shows "calculateLengthAppropriateness prompt response =
           max 0 (100 - (real (wordCount response) - real mx) / real mx * 50)"
proof -
  define x where "x = (real (wordCount response) - real mx) / real mx"
  have "0 \<le> x" unfolding x_def using long by simp
  then have "clamp (max 0 (100 - x * 50)) 0 100 = max 0 (100 - x * 50)"
    by (auto simp: clamp_def max_def min_def)
  moreover have "\<not> wordCount response < mn"
    using long expectedRange_bounds [OF eq] by simp
  ultimately show ?thesis
    unfolding x_def length_score_eq [OF eq] using long by (simp only: if_True if_False)
qed

lemma length_score_inside:
  assumes eq: "expectedRange prompt = (mn, mx)"
    and "mn \<le> wordCount response" and "wordCount response \<le> mx"
  shows "calculateLengthAppropriateness prompt response = 100"
  unfolding length_score_eq [OF eq] using assms(2,3) by (simp add: clamp_def)

lemma length_score_full_iff:
  assumes eq: "expectedRange prompt = (mn, mx)"
  shows "calculateLengthAppropriateness prompt response = 100
   \<longleftrightarrow> mn \<le> wordCount response \<and> wordCount response \<le> mx"
proof (cases "wordCount response < mn")
  case True
  define x where "x = (real mn - real (wordCount response)) / real mn"
  have "0 < x" unfolding x_def using True by simp
  moreover have "calculateLengthAppropriateness prompt response = 100 - x * 80"
    unfolding x_def by (rule length_score_short [OF eq True])
  ultimately have "calculateLengthAppropriateness prompt response < 100" by linarith
  then show ?thesis using True by simp
next
  case False
  show ?thesis
  proof (cases "mx < wordCount response")
    case True
    define x where "x = (real (wordCount response) - real mx) / real mx"
    have mx: "0 < mx" using expectedRange_bounds [OF eq] by simp
    have "0 < x" unfolding x_def using True mx by simp
    moreover have "calculateLengthAppropriateness prompt response = max 0 (100 - x * 50)"
      unfolding x_def by (rule length_score_long [OF eq True])
    ultimately have "calculateLengthAppropriateness prompt response < 100" by linarith
    then show ?thesis using True by simp
  next
    case F2: False
    then show ?thesis using False length_score_inside [OF eq, of response] by simp
  qed
qed

lemma length_score_short_mono:
  assumes eq: "expectedRange prompt = (mn, mx)"
    and "wordCount r2 < wordCount r1" and "wordCount r1 < mn"
  shows "calculateLengthAppropriateness prompt r2 < calculateLengthAppropriateness prompt r1"
proof -
  define x1 where "x1 = (real mn - real (wordCount r1)) / real mn"
  define x2 where "x2 = (real mn - real (wordCount r2)) / real mn"
  have mn: "0 < real mn" using assms(3) by simp
  have "x1 < x2" unfolding x1_def x2_def
    using assms(2) mn by (simp add: divide_strict_right_mono)
  moreover have "calculateLengthAppropriateness prompt r1 = 100 - x1 * 80"
    unfolding x1_def by (rule length_score_short [OF eq assms(3)])
  moreover have "wordCount r2 < mn" using assms by simp
  then have "calculateLengthAppropriateness prompt r2 = 100 - x2 * 80"
    unfolding x2_def by (rule length_score_short [OF eq])
  ultimately show ?thesis by linarith
qed

lemma length_score_long_mono:
  assumes eq: "expectedRange prompt = (mn, mx)"
    and "mx < wordCount r1" and "wordCount r1 < wordCount r2"
  shows "calculateLengthAppropriateness prompt r2 \<le> calculateLengthAppropriateness prompt r1
    \<and> (0 < calculateLengthAppropriateness prompt r1
       \<longrightarrow> calculateLengthAppropriateness prompt r2 < calculateLengthAppropriateness prompt r1)"
proof -
  define x1 where "x1 = (real (wordCount r1) - real mx) / real mx"
  define x2 where "x2 = (real (wordCount r2) - real mx) / real mx"
  have mx: "0 < real mx" using expectedRange_bounds [OF eq] by simp
  have "x1 < x2" unfolding x1_def x2_def
    using assms(3) mx by (simp add: divide_strict_right_mono)
  moreover have "calculateLengthAppropriateness prompt r1 = max 0 (100 - x1 * 50)"
    unfolding x1_def by (rule length_score_long [OF eq assms(2)])
  moreover have "mx < wordCount r2" using assms by simp
  then have "calculateLengthAppropriateness prompt r2 = max 0 (100 - x2 * 50)"
    unfolding x2_def by (rule length_score_long [OF eq])
  ultimately show ?thesis by (auto simp: max_def)
qed


lemma ends_reSpaces_nonspace: "\<not> isSpace c \<Longrightarrow> ends reSpaces (p, c # cs) = []"
  by (simp add: reSpaces_def rPlus_def)

lemma ends_reSpaces_one_space:
  "isSpace c \<Longrightarrow> \<not> isSpace d \<Longrightarrow> ends reSpaces (p, c # d # cs) = [(Some c, d # cs)]"
  by (simp add: reSpaces_def rPlus_def)

lemma splitLoop_repeated_word:
  "length (splitLoop reSpaces acc (p, concat (replicate n [97, 32]) @ [97])) = Suc n"
proof (induction n arbitrary: acc p)
  case 0
  then show ?case by (simp add: ends_reSpaces_nonspace isSpace_def isLineTerminator_def)
next
  case (Suc n)
  obtain t :: jsstring where t: "concat (replicate n [97, 32]) @ [97] = 97 # t"
    by (cases n) auto
  have step: "splitLoop reSpaces acc (p, 97 # 32 # 97 # t)
          = rev (97 # acc) # splitLoop reSpaces [] (Some 32, 97 # t)"
    by (simp add: ends_reSpaces_nonspace ends_reSpaces_one_space isSpace_def
        isLineTerminator_def)
  have "concat (replicate (Suc n) [97, 32]) @ [97] = 97 # 32 # 97 # t"
    using t by simp
  then have "length (splitLoop reSpaces acc (p, concat (replicate (Suc n) [97, 32]) @ [97]))
          = Suc (length (splitLoop reSpaces [] (Some 32, 97 # t)))"
    using step by simp
  then show ?case using Suc.IH [of "[]" "Some 32"] t by simp
qed

lemma wordCount_repeated_word: "wordCount (concat (replicate n [97, 32]) @ [97]) = Suc n"
  by (simp add: splitRe_def splitLoop_repeated_word)

lemma wordCount_empty: "wordCount [] = 1"
  by (simp add: run_defs pattern_defs)

text \<open>
  In terms of the number of tokens of \<^verbatim>\<open>response.split(/\s+/)\<close>, which is what the
  source compares with the band: the score is 100 exactly when that number lies in the
  band \<open>[expectedMin, expectedMax]\<close> of \<open>expectedRange\<close>. The score is never negative.
  Below the band a response with fewer tokens scores strictly less; above the band a
  response with more tokens never scores more, and scores strictly less as long as the
  score has not reached 0.
\<close>

lemma length_score_by_token_count:
  assumes "expectedRange prompt = (expectedMin, expectedMax)"
  shows "(calculateLengthAppropriateness prompt response = 100
          \<longleftrightarrow> expectedMin \<le> wordCount response \<and> wordCount response \<le> expectedMax)
    \<and> 0 \<le> calculateLengthAppropriateness prompt response
    \<and> (wordCount r2 < wordCount r1 \<and> wordCount r1 < expectedMin
        \<longrightarrow> calculateLengthAppropriateness prompt r2 < calculateLengthAppropriateness prompt r1)
    \<and> (expectedMax < wordCount r1 \<and> wordCount r1 < wordCount r2
        \<longrightarrow> calculateLengthAppropriateness prompt r2 \<le> calculateLengthAppropriateness prompt r1
          \<and> (0 < calculateLengthAppropriateness prompt r1
              \<longrightarrow> calculateLengthAppropriateness prompt r2
                    < calculateLengthAppropriateness prompt r1))"
  using length_score_full_iff [OF assms, of response]
    calculateLengthAppropriateness_range [of prompt response]
    length_score_short_mono [OF assms, of r2 r1]
    length_score_long_mono [OF assms, of r1 r2]
  by blast

lemma expectedRange_yes_or_no: "expectedRange (js ''yes or no'') = (20, 150)"
  by (simp add: expectedRange_def run_defs pattern_defs)

lemma wordCount_a: "wordCount (js ''a'') = 1"
  by (simp add: run_defs pattern_defs)

lemma wordCount_a_b: "wordCount (js ''a b'') = 2"
  by (simp add: run_defs pattern_defs)

lemma length_score_by_token_count_example:
  "expectedRange (js ''yes or no'') = (20, 150)
   \<and> calculateLengthAppropriateness (js ''yes or no'') (concat (replicate 19 [97, 32]) @ [97]) = 100
   \<and> calculateLengthAppropriateness (js ''yes or no'') (js ''a'')
       < calculateLengthAppropriateness (js ''yes or no'') (js ''a b'')
   \<and> calculateLengthAppropriateness (js ''yes or no'') (concat (replicate 151 [97, 32]) @ [97])
       < calculateLengthAppropriateness (js ''yes or no'') (concat (replicate 150 [97, 32]) @ [97])"
proof -
  note rng = expectedRange_yes_or_no
  have pos: "0 < calculateLengthAppropriateness (js ''yes or no'')
                 (concat (replicate 150 [97, 32]) @ [97])"
    by (simp add: length_score_long [OF rng] wordCount_repeated_word)
  show ?thesis
    using length_score_by_token_count [OF rng,
        of "concat (replicate 19 [97, 32]) @ [97]" "js ''a''" "js ''a b''"]
      length_score_by_token_count [OF rng,
        of "[]" "concat (replicate 151 [97, 32]) @ [97]" "concat (replicate 150 [97, 32]) @ [97]"]
      pos
    by (simp add: rng wordCount_repeated_word wordCount_a wordCount_a_b)
qed

lemma textWords_nineteenWordsAndLineFeed: "length (textWords nineteenWordsAndLineFeed) = 19"
  by (simp add: textWords_def replicate_numeral run_defs pattern_defs)

lemma wordCount_nineteenWordsAndLineFeed: "wordCount nineteenWordsAndLineFeed = 20"
  by (simp add: replicate_numeral run_defs pattern_defs)

text \<open>
  Claim C7. The score is to be 100 exactly when the word count of the response lies in the
  band computed from the prompt. The source takes for the word count the length of
  \<^verbatim>\<open>response.split(/\s+/)\<close> and keeps the empty tokens, which \<open>calculateReadability\<close>
  discards from its \<open>words\<close> (\<open>textWords\<close>). A response of 19 words that ends in a line
  feed has 19 words and 20 tokens: under the band \<open>[20, 150]\<close> of the prompt
  \<^verbatim>\<open>yes or no\<close> it scores 100, with a word count below the band, where the claim has
  \<open>100 - (1 / 20) * 80 = 96\<close>.
\<close>

theorem length_score_counts_empty_tokens:
  "expectedRange (js ''yes or no'') = (20, 150)
   \<and> length (textWords nineteenWordsAndLineFeed) = 19
   \<and> wordCount nineteenWordsAndLineFeed = 20
   \<and> calculateLengthAppropriateness (js ''yes or no'') nineteenWordsAndLineFeed = 100"
proof -
  have "calculateLengthAppropriateness (js ''yes or no'') nineteenWordsAndLineFeed = 100"
    by (rule length_score_inside [OF expectedRange_yes_or_no])
      (simp_all add: wordCount_nineteenWordsAndLineFeed)
  then show ?thesis
    by (simp add: expectedRange_yes_or_no textWords_nineteenWordsAndLineFeed
        wordCount_nineteenWordsAndLineFeed)
qed

text \<open>
  Claim C9. The empty response counts as one word (\<^verbatim>\<open>"".split(/\s+/)\<close> is the
  one-element list of the empty string), so for every prompt its length score is strictly
  above 20, and never 0.
\<close>

theorem empty_response_length_score:
  "wordCount [] = 1 \<and> 20 < calculateLengthAppropriateness prompt []"
proof -
  obtain mn mx where eq: "expectedRange prompt = (mn, mx)"
    by (cases "expectedRange prompt")
  have mn: "20 \<le> mn" using expectedRange_bounds [OF eq] by simp
  define x where "x = (real mn - real (wordCount [])) / real mn"
  have "x < 1" unfolding x_def using mn by (simp add: wordCount_empty)
  moreover have "wordCount [] < mn" using mn by (simp add: wordCount_empty)
  then have "calculateLengthAppropriateness prompt [] = 100 - x * 80"
    unfolding x_def by (rule length_score_short [OF eq])
  ultimately have "20 < calculateLengthAppropriateness prompt []" by linarith
  then show ?thesis by (simp add: wordCount_empty)
qed

theorem empty_response_length_score_witness:
  "wordCount [] = 1 \<and> 20 < calculateLengthAppropriateness (js ''Explain machine learning'') []"
  by (rule empty_response_length_score)

section \<open>Readability\<close>

lemma clamp_mono: "a \<le> b \<Longrightarrow> clamp a lo hi \<le> clamp b lo hi"
  by (auto simp: clamp_def max_def min_def)

lemma calculateReadability_empty: "calculateReadability toLowerCase [] = 0"
  by (simp add: calculateReadability_def textWords_def run_defs pattern_defs)

text \<open>
  Claim C8. \<open>calculateReadability\<close> of the empty text is 0. For two texts that both have
  words and sentences, the same clamped Flesch component and the same paragraph bonus, the
  text with the larger fraction of sentences of more than 40 words never scores more.
\<close>

theorem calculateReadability_long_sentences:
  "calculateReadability toLowerCase [] = 0
   \<and> (textWords t1 \<noteq> [] \<and> splitIntoSentences t1 \<noteq> []
        \<and> textWords t2 \<noteq> [] \<and> splitIntoSentences t2 \<noteq> []
        \<and> clamp (fleschScore toLowerCase t1) 0 100 = clamp (fleschScore toLowerCase t2) 0 100
        \<and> paragraphBonus t1 = paragraphBonus t2
        \<and> longSentenceFraction t1 \<le> longSentenceFraction t2
      \<longrightarrow> calculateReadability toLowerCase t2 \<le> calculateReadability toLowerCase t1)"
proof -
  have "calculateReadability toLowerCase t2 \<le> calculateReadability toLowerCase t1"
    if ne: "textWords t1 \<noteq> []" "splitIntoSentences t1 \<noteq> []"
      "textWords t2 \<noteq> []" "splitIntoSentences t2 \<noteq> []"
    and same: "clamp (fleschScore toLowerCase t1) 0 100 = clamp (fleschScore toLowerCase t2) 0 100"
      "paragraphBonus t1 = paragraphBonus t2"
    and le: "longSentenceFraction t1 \<le> longSentenceFraction t2"
  proof -
    have "clamp (fleschScore toLowerCase t2) 0 100 - longSentenceFraction t2 * 20 + paragraphBonus t2
          \<le> clamp (fleschScore toLowerCase t1) 0 100 - longSentenceFraction t1 * 20 + paragraphBonus t1"
      using same le by simp
    then show ?thesis
      using ne by (simp add: calculateReadability_def Let_def clamp_mono)
  qed
  then show ?thesis using calculateReadability_empty by blast
qed

lemma sentences_longNumbers:
  "splitIntoSentences longNumbers = [js ''1 1 1 1 1 1 1 1 1 1 1 1 1 1 1 1 1 1 1 1 1 1 1 1 1 1 1 1 1 1 1 1 1 1 1 1 1 1 1 1 1'']"
  by (simp add: run_defs pattern_defs)

lemma words_longNumbers: "length (textWords longNumbers) = 41"
  by (simp add: textWords_def run_defs pattern_defs)

lemma syllables_longNumbers: "countTotalSyllables toLowerCaseAscii longNumbers = 0"
  by (simp add: countTotalSyllables_def countSyllables_def toLowerCaseAscii_def run_defs pattern_defs)

lemma wordCount_longSentence: "wordCount (js ''1 1 1 1 1 1 1 1 1 1 1 1 1 1 1 1 1 1 1 1 1 1 1 1 1 1 1 1 1 1 1 1 1 1 1 1 1 1 1 1 1'') = 41"
  by (simp add: run_defs pattern_defs)

lemma paragraphBonus_longNumbers: "paragraphBonus longNumbers = 0"
  by (simp add: paragraphBonus_def run_defs pattern_defs)


lemma sentences_shortNumbers: "splitIntoSentences shortNumbers = [js ''1'']"
  by (simp add: run_defs pattern_defs)

lemma words_shortNumbers: "length (textWords shortNumbers) = 1"
  by (simp add: textWords_def run_defs pattern_defs)

lemma syllables_shortNumbers: "countTotalSyllables toLowerCaseAscii shortNumbers = 0"
  by (simp add: countTotalSyllables_def countSyllables_def toLowerCaseAscii_def run_defs
      pattern_defs)

lemma wordCount_one: "wordCount (js ''1'') = 1"
  by (simp add: run_defs pattern_defs)

lemma paragraphBonus_shortNumbers: "paragraphBonus shortNumbers = 0"
  by (simp add: paragraphBonus_def run_defs pattern_defs)

lemma flesch_shortNumbers: "clamp (fleschScore toLowerCaseAscii shortNumbers) 0 100 = 100"
  by (simp add: fleschScore_def Let_def sentences_shortNumbers words_shortNumbers
      syllables_shortNumbers clamp_def)

lemma flesch_longNumbers: "clamp (fleschScore toLowerCaseAscii longNumbers) 0 100 = 100"
  by (simp add: fleschScore_def Let_def sentences_longNumbers words_longNumbers
      syllables_longNumbers clamp_def)

lemma fraction_shortNumbers: "longSentenceFraction shortNumbers = 0"
  by (simp add: longSentenceFraction_def Let_def sentences_shortNumbers wordCount_one)

lemma fraction_longNumbers: "longSentenceFraction longNumbers = 1"
  by (simp add: longSentenceFraction_def Let_def sentences_longNumbers wordCount_longSentence)

lemma words_nonempty: "length (textWords t) = Suc n \<Longrightarrow> textWords t \<noteq> []"
  by auto

lemma readability_values:
  "calculateReadability toLowerCaseAscii shortNumbers = 100
   \<and> calculateReadability toLowerCaseAscii longNumbers = 80"
proof -
  have ne: "textWords shortNumbers \<noteq> []" "textWords longNumbers \<noteq> []"
    using words_shortNumbers words_longNumbers by auto
  have "calculateReadability toLowerCaseAscii shortNumbers = clamp 100 0 100"
    using ne by (simp add: calculateReadability_def Let_def flesch_shortNumbers
        paragraphBonus_shortNumbers fraction_shortNumbers sentences_shortNumbers)
  moreover have "calculateReadability toLowerCaseAscii longNumbers = clamp 80 0 100"
    using ne by (simp add: calculateReadability_def Let_def flesch_longNumbers
        paragraphBonus_longNumbers fraction_longNumbers sentences_longNumbers)
  ultimately show ?thesis by (simp add: clamp_def)
qed

theorem calculateReadability_long_sentences_witness:
  "longSentenceFraction shortNumbers = 0 \<and> longSentenceFraction longNumbers = 1
   \<and> calculateReadability toLowerCaseAscii [] = 0
   \<and> calculateReadability toLowerCaseAscii shortNumbers = 100
   \<and> calculateReadability toLowerCaseAscii longNumbers = 80
   \<and> calculateReadability toLowerCaseAscii longNumbers
       \<le> calculateReadability toLowerCaseAscii shortNumbers"
proof -
  have "textWords shortNumbers \<noteq> []" "textWords longNumbers \<noteq> []"
    using words_shortNumbers words_longNumbers by auto
  moreover have "splitIntoSentences shortNumbers \<noteq> []" "splitIntoSentences longNumbers \<noteq> []"
    by (simp_all add: sentences_shortNumbers sentences_longNumbers)
  ultimately show ?thesis
    using calculateReadability_long_sentences [of toLowerCaseAscii shortNumbers longNumbers]
      readability_values
    by (simp add: flesch_shortNumbers flesch_longNumbers paragraphBonus_shortNumbers paragraphBonus_longNumbers
        fraction_shortNumbers fraction_longNumbers)
qed

section \<open>Structural quality\<close>

text \<open>
  The equation of \<open>ends\<close> for \<open>Star\<close> is applied by hand in the lemmas on every
  string, and is a simplification rule again for running the patterns on given ones.
\<close>

declare ends.simps(6) [simp del]

lemma ends_Star_Cls_Nil: "ends (Star (Cls P)) (q, []) = [(q, [])]"
  by (subst ends.simps(6)) simp

lemma ends_Star_Cls_Cons:
  "ends (Star (Cls P)) (q, c # cs) =
     (if P c then ends (Star (Cls P)) (Some c, cs) else []) @ [(q, c # cs)]"
  by (subst ends.simps(6)) simp


lemma ends_Star_Cls_length:
  "(q', t) \<in> set (ends (Star (Cls P)) (q, s)) \<Longrightarrow> length t \<le> length s"
proof (induction s arbitrary: q)
  case Nil
  then show ?case by (simp add: ends_Star_Cls_Nil)
next
  case (Cons c cs)
  show ?case
  proof (cases "P c")
    case True
    then have "(q', t) \<in> set (ends (Star (Cls P)) (Some c, cs)) \<or> (q', t) = (q, c # cs)"
      using Cons.prems by (auto simp add: ends_Star_Cls_Cons)
    then show ?thesis using Cons.IH [of "Some c"] by auto
  next
    case False
    then have "(q', t) = (q, c # cs)"
      using Cons.prems by (simp add: ends_Star_Cls_Cons)
    then show ?thesis by simp
  qed
qed

lemma ends_Star_Cls_nonempty: "ends (Star (Cls P)) (q, s) \<noteq> []"
  by (cases s) (simp_all add: ends_Star_Cls_Nil ends_Star_Cls_Cons)

lemma ends_rPlus_Cls_Cons:
  "ends (rPlus (Cls P)) (p, c # cs) = (if P c then ends (Star (Cls P)) (Some c, cs) else [])"
  by (simp add: rPlus_def)


lemma splitLoop_rPlus_Cls_free:
  assumes "\<forall>c \<in> set acc. \<not> P c" and "s \<in> set (splitLoop (rPlus (Cls P)) acc (p, t))"
  shows "\<forall>c \<in> set s. \<not> P c"
  using assms
proof (induction "length t" arbitrary: t acc p rule: less_induct)
  case less
  show ?case
  proof (cases t)
    case Nil
    then show ?thesis using less.prems by simp
  next
    case (Cons c cs)
    show ?thesis
    proof (cases "P c")
      case False
      have "splitLoop (rPlus (Cls P)) acc (p, c # cs)
                   = splitLoop (rPlus (Cls P)) (c # acc) (Some c, cs)"
        using False by (simp add: ends_rPlus_Cls_Cons)
      then have mem: "s \<in> set (splitLoop (rPlus (Cls P)) (c # acc) (Some c, cs))"
        using less.prems(2) Cons by simp
      have free: "\<forall>x \<in> set (c # acc). \<not> P x" using False less.prems(1) by simp
      have lt: "length cs < length t" using Cons by simp
      show ?thesis by (rule less.hyps [OF lt free mem])
    next
      case True
      obtain q t' rest where e: "ends (Star (Cls P)) (Some c, cs) = (q, t') # rest"
        using ends_Star_Cls_nonempty [of P "Some c" cs]
        by (cases "ends (Star (Cls P)) (Some c, cs)") auto
      have "(q, t') \<in> set (ends (Star (Cls P)) (Some c, cs))" using e by simp
      then have len: "length t' \<le> length cs"
        by (rule ends_Star_Cls_length)
      have "splitLoop (rPlus (Cls P)) acc (p, c # cs)
                   = rev acc # splitLoop (rPlus (Cls P)) [] (q, t')"
        using True len by (simp add: ends_rPlus_Cls_Cons e)
      then have alt: "s = rev acc \<or> s \<in> set (splitLoop (rPlus (Cls P)) [] (q, t'))"
        using less.prems(2) Cons by simp
      have lt: "length t' < length t" using len Cons by simp
      have free: "\<forall>x \<in> set ([]::nat list). \<not> P x" by simp
      show ?thesis
      proof (cases "s = rev acc")
        case True
        then show ?thesis using less.prems(1) by simp
      next
        case False
        then have mem: "s \<in> set (splitLoop (rPlus (Cls P)) [] (q, t'))" using alt by simp
        show ?thesis by (rule less.hyps [OF lt free mem])
      qed
    qed
  qed
qed


lemma splitRe_reTerminators_free:
  assumes "s \<in> set (splitRe reTerminators text)"
  shows "\<forall>c \<in> set s. \<not> isTerminator c"
proof (cases "text = []")
  case True
  then show ?thesis using assms by (simp add: splitRe_def split: if_splits)
next
  case False
  then have "s \<in> set (splitLoop (rPlus (Cls isTerminator)) [] (None, text))"
    using assms by (simp add: splitRe_def reTerminators_def)
  moreover have "\<forall>c \<in> set ([]::nat list). \<not> isTerminator c" by simp
  ultimately show ?thesis by (rule splitLoop_rPlus_Cls_free [rotated])
qed

lemma set_trim_subset: "set (trim s) \<subseteq> set s"
proof -
  have "set (trim s) = set (dropWhile isSpace (rev (dropWhile isSpace s)))"
    by (simp add: trim_def)
  also have "\<dots> \<subseteq> set (rev (dropWhile isSpace s))"
    by (meson set_dropWhileD subsetI)
  also have "\<dots> \<subseteq> set s"
    using set_dropWhileD [of _ isSpace s] by auto
  finally show ?thesis .
qed

lemma testFrom_first_class_absent:
  "\<forall>c \<in> set s. \<not> P c \<Longrightarrow> \<not> testFrom (Seq (Cls P) r) (p, s)"
  by (induction s arbitrary: p) simp_all

lemma splitIntoSentences_free:
  assumes "s \<in> set (splitIntoSentences text)"
  shows "\<forall>c \<in> set s. \<not> isTerminator c"
proof -
  obtain u where u: "u \<in> set (splitRe reTerminators text)" and s: "s = trim u"
    using assms by (auto simp: splitIntoSentences_def)
  show ?thesis
    using splitRe_reTerminators_free [OF u] set_trim_subset [of u] s by blast
qed

lemma properlyEnded_zero: "properlyEnded text = 0"
proof -
  have "\<not> reTest reEndsTerminated (trim s)" if "s \<in> set (splitIntoSentences text)" for s
  proof -
    have "\<forall>c \<in> set (trim s). \<not> isTerminator c"
      using splitIntoSentences_free [OF that] set_trim_subset [of s] by blast
    then show ?thesis
      unfolding reTest_def reEndsTerminated_def by (rule testFrom_first_class_absent)
  qed
  then show ?thesis by (simp add: properlyEnded_def)
qed

lemma scoreBeforeParens_upper: "scoreBeforeParens text \<le> 95"
proof -
  define n where "n = length (splitRe reParagraphBreak text)"
  define a :: real where "a = (if n > 1 then min (real n * 3) 15 else 0)"
  define b :: real where "b = (if matchCount reListItem text \<ge> 2 then 10 else 0)"
  define c :: real where "c = (if reTest reCode text then 5 else 0)"
  define d :: real where
    "d = (if reTest reMarkdownHeader text \<or> reTest reSectionLabel text then 5 else 0)"
  have "scoreBeforeParens text = 60 + a + b + c + d - real (matchCount reExcessiveBreaks text) * 5"
    by (simp add: scoreBeforeParens_def Let_def properlyEnded_zero a_def b_def c_def d_def n_def)
  moreover have "a \<le> 15" "b \<le> 10" "c \<le> 5" "d \<le> 5"
    by (simp_all add: a_def b_def c_def d_def)
  moreover have "0 \<le> real (matchCount reExcessiveBreaks text) * 5" by simp
  ultimately show ?thesis by linarith
qed

lemma countFrom_rChar: "countFrom (rChar c) (p, s) = length (filter (\<lambda>x. x = c) s)"
  by (induction s arbitrary: p) (simp_all add: rChar_def)

lemma matchCount_rChar: "matchCount (rChar c) s = length (filter (\<lambda>x. x = c) s)"
  by (simp add: matchCount_def countFrom_rChar)

lemma openParens_insert: "openParens (xs @ 40 # ys) = Suc (openParens (xs @ ys))"
  by (simp add: openParens_def matchCount_rChar)

lemma closeParens_insert: "closeParens (xs @ 40 # ys) = closeParens (xs @ ys)"
  by (simp add: closeParens_def matchCount_rChar)

text \<open>
  Claim C4, as amended. Take a text with as many \<open>(\<close> as \<open>)\<close> and insert one \<open>(\<close>
  anywhere, such that the score before the check of the parentheses is unchanged. If that
  score is not negative, the structural-quality score of the new text is exactly 5 lower.
  In every case it is lower by at most 5, and never higher.
\<close>

theorem unmatched_paren_costs_five:
  assumes balanced: "openParens (xs @ ys) = closeParens (xs @ ys)"
    and same: "scoreBeforeParens (xs @ 40 # ys) = scoreBeforeParens (xs @ ys)"
  shows "(0 \<le> scoreBeforeParens (xs @ ys)
          \<longrightarrow> calculateStructuralQuality (xs @ 40 # ys)
                = calculateStructuralQuality (xs @ ys) - 5)
    \<and> calculateStructuralQuality (xs @ ys) - 5 \<le> calculateStructuralQuality (xs @ 40 # ys)
    \<and> calculateStructuralQuality (xs @ 40 # ys) \<le> calculateStructuralQuality (xs @ ys)"
proof -
  define b where "b = scoreBeforeParens (xs @ ys)"
  have ub: "b \<le> 95" unfolding b_def by (rule scoreBeforeParens_upper)
  have "openParens (xs @ 40 # ys) \<noteq> closeParens (xs @ 40 # ys)"
    using balanced by (simp add: openParens_insert closeParens_insert)
  then have with_paren: "calculateStructuralQuality (xs @ 40 # ys) = clamp b 0 100"
    using same by (simp add: calculateStructuralQuality_def b_def)
  have without: "calculateStructuralQuality (xs @ ys) = clamp (b + 5) 0 100"
    using balanced by (simp add: calculateStructuralQuality_def b_def)
  show ?thesis
    unfolding with_paren without b_def [symmetric]
    using ub by (auto simp: clamp_def max_def min_def)
qed


declare ends.simps(6) [simp]

lemma scoreBeforeParens_manyBreaks: "scoreBeforeParens manyBreaks = - 5"
  by (simp add: scoreBeforeParens_def properlyEnded_zero replicate_numeral run_defs pattern_defs)

lemma scoreBeforeParens_manyBreaks_paren: "scoreBeforeParens (manyBreaks @ [40]) = - 5"
  by (simp add: scoreBeforeParens_def properlyEnded_zero replicate_numeral run_defs pattern_defs)


lemma parens_manyBreaks: "openParens manyBreaks = 0 \<and> closeParens manyBreaks = 0"
  by (simp add: openParens_def closeParens_def matchCount_rChar replicate_numeral)

text \<open>
  Claim C4 as stated fails where the final clamp floors both scores: with 16 runs of four
  line breaks the score before the check of the parentheses is -5, so the text and the
  text with one more \<open>(\<close> both score 0.
\<close>

theorem unmatched_paren_floor_counterexample:
  "openParens manyBreaks = closeParens manyBreaks
   \<and> scoreBeforeParens (manyBreaks @ [40]) = scoreBeforeParens manyBreaks
   \<and> calculateStructuralQuality manyBreaks = 0
   \<and> calculateStructuralQuality (manyBreaks @ [40]) = 0
   \<and> calculateStructuralQuality (manyBreaks @ [40]) \<noteq> calculateStructuralQuality manyBreaks - 5"
proof -
  have "openParens (manyBreaks @ [40]) = 1 \<and> closeParens (manyBreaks @ [40]) = 0"
    using parens_manyBreaks by (simp add: openParens_insert closeParens_insert)
  then have "calculateStructuralQuality (manyBreaks @ [40]) = 0"
    by (simp add: calculateStructuralQuality_def scoreBeforeParens_manyBreaks_paren clamp_def)
  moreover have "calculateStructuralQuality manyBreaks = 0"
    using parens_manyBreaks
    by (simp add: calculateStructuralQuality_def scoreBeforeParens_manyBreaks clamp_def)
  ultimately show ?thesis
    using parens_manyBreaks
    by (simp add: scoreBeforeParens_manyBreaks scoreBeforeParens_manyBreaks_paren)
qed

lemma scoreBeforeParens_hello_world: "scoreBeforeParens (js ''Hello world.'') = 60"
  by (simp add: scoreBeforeParens_def properlyEnded_zero run_defs pattern_defs)

lemma scoreBeforeParens_hello_paren_world: "scoreBeforeParens (js ''Hello (world.'') = 60"
  by (simp add: scoreBeforeParens_def properlyEnded_zero run_defs pattern_defs)

lemma parens_hello_world:
  "openParens (js ''Hello world.'') = 0 \<and> closeParens (js ''Hello world.'') = 0"
  by (simp add: openParens_def closeParens_def matchCount_rChar js_def)

lemma hello_paren_world_split: "js ''Hello (world.'' = js ''Hello '' @ 40 # js ''world.''"
  by (simp add: js_def)

lemma hello_world_split: "js ''Hello world.'' = js ''Hello '' @ js ''world.''"
  by (simp add: js_def)

theorem unmatched_paren_costs_five_witness:
  "openParens (js ''Hello world.'') = closeParens (js ''Hello world.'')
   \<and> scoreBeforeParens (js ''Hello (world.'') = scoreBeforeParens (js ''Hello world.'')
   \<and> 0 \<le> scoreBeforeParens (js ''Hello world.'')
   \<and> calculateStructuralQuality (js ''Hello (world.'')
       = calculateStructuralQuality (js ''Hello world.'') - 5"
proof -
  have b: "openParens (js ''Hello '' @ js ''world.'') = closeParens (js ''Hello '' @ js ''world.'')"
    using parens_hello_world unfolding hello_world_split by simp
  have s: "scoreBeforeParens (js ''Hello '' @ 40 # js ''world.'')
             = scoreBeforeParens (js ''Hello '' @ js ''world.'')"
    using scoreBeforeParens_hello_world scoreBeforeParens_hello_paren_world
    unfolding hello_world_split hello_paren_world_split by simp
  have n: "0 \<le> scoreBeforeParens (js ''Hello '' @ js ''world.'')"
    using scoreBeforeParens_hello_world unfolding hello_world_split by simp
  show ?thesis
    using unmatched_paren_costs_five [OF b s] n b s
    unfolding hello_world_split hello_paren_world_split by blast
qed

lemma splitIntoSentences_hello: "splitIntoSentences (js ''Hello.'') = [js ''Hello'']"
  by (simp add: run_defs pattern_defs)

text \<open>
  Claim C3. The punctuation term is computed from the sentences that
  \<open>splitIntoSentences\<close> returns, which hold no terminator (\<open>properlyEnded_zero\<close>), so
  the term is 0: for \<^verbatim>\<open>Hello.\<close>, one sentence that ends in a full stop, the score is
  65 (the base 60 and 5 for the parentheses), without the 10 of the claim.
\<close>

theorem punctuation_term_never_added:
  "splitIntoSentences (js ''Hello.'') = [js ''Hello'']
   \<and> properlyEnded (js ''Hello.'') = 0
   \<and> calculateStructuralQuality (js ''Hello.'') = 65"
  by (simp add: splitIntoSentences_hello calculateStructuralQuality_def scoreBeforeParens_def
      properlyEnded_zero openParens_def closeParens_def matchCount_rChar clamp_def run_defs
      pattern_defs)


text \<open>
  Claim C10. \<open>calculateStructuralQuality\<close> of the empty string is 65: the score is the
  base 60 when the parentheses are checked (no paragraph, list, code, header, punctuation
  or line-break term applies), and the count of both parentheses is 0, which adds 5.
\<close>

theorem calculateStructuralQuality_empty:
  "scoreBeforeParens [] = 60 \<and> openParens [] = 0 \<and> closeParens [] = 0
   \<and> calculateStructuralQuality [] = 65"
  by (simp add: calculateStructuralQuality_def scoreBeforeParens_def openParens_def
      closeParens_def properlyEnded_def clamp_def run_defs pattern_defs)

end
